theory Spec2Isabelle
  imports Main
begin

section \<open>YouTubeVideoDownloaderDriver.py: the download request handler\<close>

text \<open>
  The development embeds \<^verbatim>\<open>downloadYouTubeVideo\<close> of
  \<^verbatim>\<open>src/source/YouTubeVideoDownloaderDriver.py\<close>. The handler is straight-line
  orchestration of four collaborators: the external provider (pytube), the logger, the
  message boxes of the windowing toolkit and the file system. Each of them is an effect,
  written here as explicit state passing over a \<open>world\<close> that also records the trace
  of effects in the order the code performs them.
\<close>

subsection \<open>Module constants (lines 40-60)\<close>

definition FILE_TYPES :: "string list" where
  "FILE_TYPES = [''mp3'', ''mp4'']"

definition GUI_ERROR_URL_TITLE :: string where
  "GUI_ERROR_URL_TITLE = ''URL Error''"

definition GUI_ERROR_URL_TEXT_EMPTY :: string where
  "GUI_ERROR_URL_TEXT_EMPTY = ''The URL is empty.''"

definition GUI_ERROR_URL_TEXT_INVALID :: string where
  "GUI_ERROR_URL_TEXT_INVALID = ''The URL is invalid.''"

definition GUI_ERROR_AGE_TITLE :: string where
  "GUI_ERROR_AGE_TITLE = ''Age Restriction Error''"

definition GUI_ERROR_AGE_TEXT :: string where
  "GUI_ERROR_AGE_TEXT = ''The video is age restricted.''"

definition GUI_INFO_SUCCESS_TITLE :: string where
  "GUI_INFO_SUCCESS_TITLE = ''Download Successful''"

definition GUI_INFO_SUCCESS_TEXT :: string where
  "GUI_INFO_SUCCESS_TEXT = ''The content was successfully downloaded.''"

subsection \<open>Exceptions, effects and the world\<close>

text \<open>
  An \<open>exn\<close> is an instance of a subclass of Python's \<^verbatim>\<open>Exception\<close>: what the provider
  raises when it fails (the class name and message are carried as text), and the
  \<^verbatim>\<open>FileNotFoundError\<close> of \<^verbatim>\<open>os.remove\<close> and \<^verbatim>\<open>os.rename\<close>. Signals that are not
  \<^verbatim>\<open>Exception\<close>s (a keyboard interrupt, interpreter exit) are outside the model.
\<close>

datatype exn = ProviderError string | FileNotFoundError string

datatype event =
    LogInfo string
  | LogWarning string
  | LogError string
  | LogException exn
  | ShowError string string
  | ShowInfo string string
  | RetSet bool
  | FsWrite string string
  | FsRemove string
  | FsRename string string

text \<open>
  The world: the home directory that \<^verbatim>\<open>Path.home()\<close> answers, the regular files of the
  file system (path to contents), the value held by the \<^verbatim>\<open>tk.BooleanVar\<close> passed as
  \<^verbatim>\<open>ret\<close>, and the effects performed so far, oldest first.
\<close>

record world =
  home :: string
  fs :: "string \<rightharpoonup> string"
  ret :: bool
  trace :: "event list"

text \<open>
  What the handler hands back to its caller: \<^verbatim>\<open>None\<close>, a Python boolean, or the
  \<^verbatim>\<open>ret\<close> holder object itself.
\<close>

datatype py_value = PyNone | PyBool bool | RetHolder

text \<open>A call either returns a value or raises; both leave a world behind.\<close>

datatype 'a outcome =
    Returns (value_of: 'a) (world_of: world)
  | Raises (exn_of: exn) (world_of: world)

definition emit :: "event \<Rightarrow> world \<Rightarrow> world" where
  "emit ev w = w\<lparr>trace := trace w @ [ev]\<rparr>"

definition ret_set :: "bool \<Rightarrow> world \<Rightarrow> world" where
  \<comment> \<open>\<^verbatim>\<open>ret.set(b)\<close>\<close>
  "ret_set b w = emit (RetSet b) (w\<lparr>ret := b\<rparr>)"

subsection \<open>The external provider\<close>

text \<open>
  pytube is not part of the repository; the handler uses four of its operations. They are
  parameters of the model: a \<open>stream\<close> carries the file name the provider chooses, the
  bytes it delivers, whether its download raises, and its \<^verbatim>\<open>str()\<close>; a \<open>youtube\<close>
  object carries the result of reading \<^verbatim>\<open>yt.title\<close> and of the two stream selections,
  each of which may raise. A selection that answers \<^verbatim>\<open>None\<close> behaves as a stream whose
  \<^verbatim>\<open>download\<close> raises. The constructor \<^verbatim>\<open>YouTube(url=..., use_oauth=True)\<close> is a function
  from the url to an exception or a \<open>youtube\<close> object.
\<close>

record stream =
  default_filename :: string
  payload :: string
  download_error :: "exn option"
  str_of :: string

record youtube =
  title :: "exn + string"
  get_audio_only :: "exn + stream"
  get_highest_resolution :: "exn + stream"

type_synonym provider = "string \<Rightarrow> exn + youtube"

subsection \<open>\<^verbatim>\<open>os.path\<close> and \<^verbatim>\<open>os\<close> (POSIX)\<close>

definition os_path_join :: "string \<Rightarrow> string \<Rightarrow> string" where
  \<comment> \<open>\<^verbatim>\<open>posixpath.join(a, b)\<close>\<close>
  "os_path_join a b =
     (if b \<noteq> [] \<and> hd b = CHR ''/'' then b
      else if a = [] \<or> last a = CHR ''/'' then a @ b
      else a @ ''/'' @ b)"

fun rfind :: "char \<Rightarrow> string \<Rightarrow> int" where
  \<comment> \<open>\<^verbatim>\<open>p.rfind(c)\<close>: the highest index of \<open>c\<close> in \<open>p\<close>, or -1\<close>
  "rfind c [] = -1"
| "rfind c (x # xs) =
     (let r = rfind c xs in
      if 0 \<le> r then r + 1 else if x = c then 0 else -1)"

function leading_dots_only :: "string \<Rightarrow> int \<Rightarrow> int \<Rightarrow> bool" where
  \<comment> \<open>the \<^verbatim>\<open>while filenameIndex < dotIndex\<close> loop of \<^verbatim>\<open>genericpath._splitext\<close>:
      False as soon as a character other than the dot is met (the loop returns the split),
      True when the loop runs out\<close>
  "leading_dots_only p filenameIndex dotIndex =
     (if filenameIndex < dotIndex then
        (if p ! nat filenameIndex \<noteq> CHR ''.'' then False
         else leading_dots_only p (filenameIndex + 1) dotIndex)
      else True)"
  by pat_completeness auto
termination
  by (relation "measure (\<lambda>(p, i, d). nat (d - i))") auto

declare leading_dots_only.simps [simp del]

definition os_path_splitext :: "string \<Rightarrow> string \<times> string" where
  \<comment> \<open>\<^verbatim>\<open>posixpath.splitext(p)\<close>\<close>
  "os_path_splitext p =
     (let sepIndex = rfind CHR ''/'' p;
          dotIndex = rfind CHR ''.'' p
      in if dotIndex > sepIndex \<and> \<not> leading_dots_only p (sepIndex + 1) dotIndex
         then (take (nat dotIndex) p, drop (nat dotIndex) p)
         else (p, []))"

definition os_path_isfile :: "string \<Rightarrow> world \<Rightarrow> bool" where
  "os_path_isfile p w = (fs w p \<noteq> None)"

definition os_remove :: "string \<Rightarrow> world \<Rightarrow> unit outcome" where
  "os_remove p w =
     (case fs w p of
        None \<Rightarrow> Raises (FileNotFoundError p) w
      | Some _ \<Rightarrow> Returns () (emit (FsRemove p) (w\<lparr>fs := (fs w)(p := None)\<rparr>)))"

definition os_rename :: "string \<Rightarrow> string \<Rightarrow> world \<Rightarrow> unit outcome" where
  "os_rename src dst w =
     (case fs w src of
        None \<Rightarrow> Raises (FileNotFoundError src) w
      | Some b \<Rightarrow>
          Returns () (emit (FsRename src dst) (w\<lparr>fs := ((fs w)(src := None))(dst \<mapsto> b)\<rparr>)))"

definition stream_download :: "stream \<Rightarrow> string \<Rightarrow> world \<Rightarrow> string outcome" where
  \<comment> \<open>Modelled from the spec: \<^verbatim>\<open>stream.download(output_path=...)\<close> of the provider, which
      downloads the stream's bytes to the given directory and answers the path of the
      file, at a name of the provider's choice. What a failed download leaves on disk is
      not modelled.\<close>
  "stream_download s output_path w =
     (case download_error s of
        Some e \<Rightarrow> Raises e w
      | None \<Rightarrow>
          (let p = os_path_join output_path (default_filename s)
           in Returns p (emit (FsWrite p (payload s)) (w\<lparr>fs := (fs w)(p \<mapsto> payload s)\<rparr>))))"

subsection \<open>\<^verbatim>\<open>downloadYouTubeVideo\<close> (lines 129-194)\<close>

definition url_error_exit :: "string \<Rightarrow> exn \<Rightarrow> world \<Rightarrow> py_value outcome" where
  \<comment> \<open>lines 137-140 and 147-151: the \<^verbatim>\<open>except Exception\<close> clause, then the
      \<^verbatim>\<open>else\<close> branch of the \<^verbatim>\<open>finally\<close> clause\<close>
  "url_error_exit url e w =
     (let w = emit (LogWarning (''Unable to access YouTube URL of '' @ url)) w;
          w = emit (LogException e) w;
          w = emit (LogError ''The YouTube link could not be accessed.'') w;
          w = emit (ShowError GUI_ERROR_URL_TITLE
                 (if url = [] then GUI_ERROR_URL_TEXT_EMPTY else GUI_ERROR_URL_TEXT_INVALID)) w;
          w = ret_set False w
      in Returns PyNone w)"

definition select_stream :: "string \<Rightarrow> youtube \<Rightarrow> world \<Rightarrow> (exn + stream) \<times> world" where
  \<comment> \<open>lines 155-161: the body of the second \<^verbatim>\<open>try\<close>\<close>
  "select_stream fileType yt w =
     (if fileType = ''mp3''
      then (get_audio_only yt, emit (LogInfo ''Accessing highest quality audio stream.'') w)
      else (get_highest_resolution yt,
            emit (LogInfo ''Accessing highest quality video stream.'') w))"

definition age_error_exit :: "world \<Rightarrow> py_value outcome" where
  \<comment> \<open>lines 164-168: the bare \<^verbatim>\<open>except\<close> clause\<close>
  "age_error_exit w =
     (let w = emit (LogError ''The YouTube video is age restricted and cannot be downloaded.'') w;
          w = emit (ShowError GUI_ERROR_AGE_TITLE GUI_ERROR_AGE_TEXT) w;
          w = ret_set False w
      in Returns PyNone w)"

definition convert_to_mp3 :: "string \<Rightarrow> world \<Rightarrow> unit outcome" where
  \<comment> \<open>lines 180-189\<close>
  "convert_to_mp3 outFile w =
     (let w = emit (LogInfo ''Saving file as .mp3 format.'') w;
          (base, ext) = os_path_splitext outFile;
          newFile = base @ ''.mp3''
      in if os_path_isfile newFile w
         then (case os_remove newFile
                      (emit (LogWarning ''Overwriting file with identical name.'') w) of
                 Raises e w \<Rightarrow> Raises e w
               | Returns _ w \<Rightarrow> os_rename outFile newFile w)
         else os_rename outFile newFile w)"

definition success_exit :: "world \<Rightarrow> py_value outcome" where
  \<comment> \<open>lines 192-194\<close>
  "success_exit w =
     (let w = ret_set True w;
          w = emit (ShowInfo GUI_INFO_SUCCESS_TITLE GUI_INFO_SUCCESS_TEXT) w
      in Returns RetHolder w)"

definition download_and_convert ::
  "string \<Rightarrow> string \<Rightarrow> stream \<Rightarrow> world \<Rightarrow> py_value outcome" where
  \<comment> \<open>lines 171-194\<close>
  "download_and_convert url fileType s w =
     (let w = emit (LogInfo (''Stream data is '' @ str_of s)) w;
          w = emit (LogInfo (''Starting download of stream at '' @ url)) w
      in case stream_download s (os_path_join (home w) ''Downloads'') w of
           Raises e w \<Rightarrow> Raises e w
         | Returns outFile w \<Rightarrow>
             (let w = emit (LogInfo (''Finished download of stream at '' @ url)) w
              in if fileType = ''mp3''
                 then (case convert_to_mp3 outFile w of
                         Raises e w \<Rightarrow> Raises e w
                       | Returns _ w \<Rightarrow> success_exit w)
                 else success_exit w))"

definition downloadYouTubeVideo ::
  "provider \<Rightarrow> string \<Rightarrow> string \<Rightarrow> world \<Rightarrow> py_value outcome" where
  "downloadYouTubeVideo YouTube url fileType w =
     (let w = emit (LogInfo ''Attempting to access URL.'') w
      in case YouTube url of
           Inl e \<Rightarrow> url_error_exit url e w
         | Inr yt \<Rightarrow>
             (let w = emit (LogInfo ''URL access successful. Video has been found.'') w
              in case title yt of
                   Inl e \<Rightarrow> Raises e w
                 | Inr t \<Rightarrow>
                     (let w = emit (LogInfo (''The video's title is '' @ t)) w
                      in case select_stream fileType yt w of
                           (Inl e, w) \<Rightarrow> age_error_exit w
                         | (Inr s, w) \<Rightarrow> download_and_convert url fileType s w)))"

subsection \<open>The two buttons of \<^verbatim>\<open>createGUI\<close> (lines 106 and 109)\<close>

text \<open>
  The form has one button for each entry of \<^verbatim>\<open>FILE_TYPES\<close>; its command calls the handler
  with the url of the entry box and that file type. The audio kind of the specification is
  the first button, the video kind the second.
\<close>

definition mp3_button :: "provider \<Rightarrow> string \<Rightarrow> world \<Rightarrow> py_value outcome" where
  "mp3_button YouTube url w = downloadYouTubeVideo YouTube url (FILE_TYPES ! 0) w"

definition mp4_button :: "provider \<Rightarrow> string \<Rightarrow> world \<Rightarrow> py_value outcome" where
  "mp4_button YouTube url w = downloadYouTubeVideo YouTube url (FILE_TYPES ! 1) w"

subsection \<open>Observing a run\<close>

text \<open>The effects a run added to the trace, given the worlds before and after it.\<close>

definition new_events :: "world \<Rightarrow> world \<Rightarrow> event list" where
  "new_events w w' = drop (length (trace w)) (trace w')"

fun is_RetSet :: "event \<Rightarrow> bool" where
  "is_RetSet (RetSet b) = True"
| "is_RetSet _ = False"

fun is_FsWrite :: "event \<Rightarrow> bool" where
  "is_FsWrite (FsWrite p b) = True"
| "is_FsWrite _ = False"

fun is_dialog :: "event \<Rightarrow> bool" where
  "is_dialog (ShowError t m) = True"
| "is_dialog (ShowInfo t m) = True"
| "is_dialog _ = False"

fun is_remove_or_rename :: "event \<Rightarrow> bool" where
  "is_remove_or_rename (FsRemove p) = True"
| "is_remove_or_rename (FsRename p q) = True"
| "is_remove_or_rename _ = False"

text \<open>The path at which the handler asks the provider to put the download.\<close>

abbreviation (input) download_path :: "world \<Rightarrow> stream \<Rightarrow> string" where
  "download_path w s \<equiv> os_path_join (os_path_join (home w) ''Downloads'') (default_filename s)"

text \<open>
  The specification speaks of a \<^verbatim>\<open>DownloadResult\<close> with an \<^verbatim>\<open>errorKind\<close>; the code
  shows a modal dialog instead. The error kind of a run is read back from the error
  dialogs it showed, through the fixed title and message pairs of the notifier.
\<close>

datatype errorKind = URL_EMPTY | URL_INVALID | ACCESS_RESTRICTED

fun errorKind_of_event :: "event \<Rightarrow> errorKind option" where
  "errorKind_of_event (ShowError t m) =
     (if t = GUI_ERROR_URL_TITLE \<and> m = GUI_ERROR_URL_TEXT_EMPTY then Some URL_EMPTY
      else if t = GUI_ERROR_URL_TITLE \<and> m = GUI_ERROR_URL_TEXT_INVALID then Some URL_INVALID
      else if t = GUI_ERROR_AGE_TITLE \<and> m = GUI_ERROR_AGE_TEXT then Some ACCESS_RESTRICTED
      else None)"
| "errorKind_of_event _ = None"

definition errorKinds :: "event list \<Rightarrow> errorKind list" where
  "errorKinds es = List.map_filter errorKind_of_event es"

text \<open>
  \<^verbatim>\<open>posixpath.split(p)\<close>: the directory and the file name of a path, used to say what a
  rename leaves alone.
\<close>

definition rstrip_sep :: "string \<Rightarrow> string" where
  "rstrip_sep h = rev (dropWhile (\<lambda>c. c = CHR ''/'') (rev h))"

definition os_path_split :: "string \<Rightarrow> string \<times> string" where
  "os_path_split p =
     (let i = nat (rfind CHR ''/'' p + 1);
          head = take i p;
          tail = drop i p
      in (if head \<noteq> [] \<and> head \<noteq> replicate (length head) CHR ''/''
          then rstrip_sep head else head, tail))"

subsection \<open>A concrete provider and world\<close>

text \<open>
  One provider with five kinds of url: a video that downloads, one whose stream selection
  is refused, one whose download breaks, one that the constructor accepts but whose
  title cannot be read (the provider goes to the network only then), and everything else
  rejected by the constructor.
\<close>

definition song_stream :: stream where
  "song_stream =
     \<lparr>default_filename = ''Song.mp4'', payload = ''BYTES'', download_error = None,
      str_of = ''<Stream: itag=140>''\<rparr>"

definition broken_stream :: stream where
  "broken_stream = song_stream\<lparr>download_error := Some (ProviderError ''IncompleteRead'')\<rparr>"

definition song_video :: youtube where
  "song_video =
     \<lparr>title = Inr ''Song'', get_audio_only = Inr song_stream,
      get_highest_resolution = Inr (song_stream\<lparr>str_of := ''<Stream: itag=22>''\<rparr>)\<rparr>"

definition restricted_video :: youtube where
  "restricted_video =
     \<lparr>title = Inr ''Song'', get_audio_only = Inl (ProviderError ''AgeRestrictedError''),
      get_highest_resolution = Inl (ProviderError ''AgeRestrictedError'')\<rparr>"

definition broken_video :: youtube where
  "broken_video =
     \<lparr>title = Inr ''Song'', get_audio_only = Inr broken_stream,
      get_highest_resolution = Inr broken_stream\<rparr>"

definition unavailable_video :: youtube where
  "unavailable_video =
     \<lparr>title = Inl (ProviderError ''VideoUnavailable''),
      get_audio_only = Inl (ProviderError ''VideoUnavailable''),
      get_highest_resolution = Inl (ProviderError ''VideoUnavailable'')\<rparr>"

definition demo_provider :: provider where
  "demo_provider u =
     (if u = ''https://youtu.be/song'' then Inr song_video
      else if u = ''https://youtu.be/restricted'' then Inr restricted_video
      else if u = ''https://youtu.be/broken'' then Inr broken_video
      else if u = ''https://youtu.be/unavailable'' then Inr unavailable_video
      else Inl (ProviderError ''RegexMatchError''))"

definition demo_world :: world where
  "demo_world = \<lparr>home = ''/home/user'', fs = Map.empty, ret = False, trace = []\<rparr>"

text \<open>The world the audio request for the song leaves behind, written out.\<close>

definition song_audio_world :: world where
  "song_audio_world =
     \<lparr>home = ''/home/user'',
      fs = [''/home/user/Downloads/Song.mp3'' \<mapsto> ''BYTES''],
      ret = True,
      trace =
        [LogInfo ''Attempting to access URL.'',
         LogInfo ''URL access successful. Video has been found.'',
         LogInfo ''The video's title is Song'',
         LogInfo ''Accessing highest quality audio stream.'',
         LogInfo ''Stream data is <Stream: itag=140>'',
         LogInfo ''Starting download of stream at https://youtu.be/song'',
         FsWrite ''/home/user/Downloads/Song.mp4'' ''BYTES'',
         LogInfo ''Finished download of stream at https://youtu.be/song'',
         LogInfo ''Saving file as .mp3 format.'',
         FsRename ''/home/user/Downloads/Song.mp4'' ''/home/user/Downloads/Song.mp3'',
         RetSet True,
         ShowInfo ''Download Successful'' ''The content was successfully downloaded.'']\<rparr>"

section \<open>Properties of the handler\<close>

lemmas handler_defs =
  downloadYouTubeVideo_def url_error_exit_def select_stream_def age_error_exit_def
  convert_to_mp3_def success_exit_def download_and_convert_def stream_download_def
  os_remove_def os_rename_def os_path_isfile_def emit_def ret_set_def new_events_def

lemmas gui_defs =
  GUI_ERROR_URL_TITLE_def GUI_ERROR_URL_TEXT_EMPTY_def GUI_ERROR_URL_TEXT_INVALID_def
  GUI_ERROR_AGE_TITLE_def GUI_ERROR_AGE_TEXT_def GUI_INFO_SUCCESS_TITLE_def
  GUI_INFO_SUCCESS_TEXT_def

lemma button_file_types:
  "mp3_button YouTube url w = downloadYouTubeVideo YouTube url ''mp3'' w"
  "mp4_button YouTube url w = downloadYouTubeVideo YouTube url ''mp4'' w"
  by (simp_all add: mp3_button_def mp4_button_def FILE_TYPES_def)

subsection \<open>The paths through the handler\<close>

text \<open>
  One lemma for each way through the handler, giving the outcome and the world it leaves;
  the case rule says that these are all the ways.
\<close>

lemma handler_cases:
  obtains (url_error) e where "YouTube url = Inl e"
  | (title_error) yt e where "YouTube url = Inr yt" "title yt = Inl e"
  | (select_error) yt t e where "YouTube url = Inr yt" "title yt = Inr t"
      "fst (select_stream fileType yt w) = Inl e"
  | (download_error) yt t s e where "YouTube url = Inr yt" "title yt = Inr t"
      "fst (select_stream fileType yt w) = Inr s" "download_error s = Some e"
  | (downloaded) yt t s where "YouTube url = Inr yt" "title yt = Inr t"
      "fst (select_stream fileType yt w) = Inr s" "download_error s = None"
proof (cases "YouTube url")
  case (Inl e)
  then show ?thesis by (rule url_error)
next
  case yt: (Inr yt)
  show ?thesis
  proof (cases "title yt")
    case (Inl e)
    with yt show ?thesis by (rule title_error)
  next
    case t: (Inr t)
    show ?thesis
    proof (cases "fst (select_stream fileType yt w)")
      case (Inl e)
      with yt t show ?thesis by (rule select_error)
    next
      case s: (Inr s)
      show ?thesis
      proof (cases "download_error s")
        case None
        with yt t s show ?thesis by (rule downloaded)
      next
        case (Some e)
        with yt t s show ?thesis by (rule download_error)
      qed
    qed
  qed
qed

lemma run_url_error:
  assumes "YouTube url = Inl e"
  shows "downloadYouTubeVideo YouTube url fileType w =
     Returns PyNone
       (w\<lparr>ret := False,
          trace := trace w @
            [LogInfo ''Attempting to access URL.'',
             LogWarning (''Unable to access YouTube URL of '' @ url),
             LogException e,
             LogError ''The YouTube link could not be accessed.'',
             ShowError GUI_ERROR_URL_TITLE
               (if url = [] then GUI_ERROR_URL_TEXT_EMPTY else GUI_ERROR_URL_TEXT_INVALID),
             RetSet False]\<rparr>)"
  using assms
  by (simp add: downloadYouTubeVideo_def url_error_exit_def emit_def ret_set_def)

lemma run_title_error:
  assumes "YouTube url = Inr yt" "title yt = Inl e"
  shows "downloadYouTubeVideo YouTube url fileType w =
     Raises e
       (w\<lparr>trace := trace w @
            [LogInfo ''Attempting to access URL.'',
             LogInfo ''URL access successful. Video has been found.'']\<rparr>)"
  using assms
  by (simp add: downloadYouTubeVideo_def emit_def)

lemma run_select_error:
  assumes "YouTube url = Inr yt" "title yt = Inr t"
    "fst (select_stream fileType yt w) = Inl e"
  shows "downloadYouTubeVideo YouTube url fileType w =
     Returns PyNone
       (w\<lparr>ret := False,
          trace := trace w @
            [LogInfo ''Attempting to access URL.'',
             LogInfo ''URL access successful. Video has been found.'',
             LogInfo (''The video's title is '' @ t),
             LogInfo (if fileType = ''mp3'' then ''Accessing highest quality audio stream.''
                      else ''Accessing highest quality video stream.''),
             LogError ''The YouTube video is age restricted and cannot be downloaded.'',
             ShowError GUI_ERROR_AGE_TITLE GUI_ERROR_AGE_TEXT,
             RetSet False]\<rparr>)"
  using assms
  by (simp add: downloadYouTubeVideo_def select_stream_def age_error_exit_def emit_def
      ret_set_def split: if_splits)

lemma run_download_error:
  assumes "YouTube url = Inr yt" "title yt = Inr t"
    "fst (select_stream fileType yt w) = Inr s" "download_error s = Some e"
  shows "downloadYouTubeVideo YouTube url fileType w =
     Raises e
       (w\<lparr>trace := trace w @
            [LogInfo ''Attempting to access URL.'',
             LogInfo ''URL access successful. Video has been found.'',
             LogInfo (''The video's title is '' @ t),
             LogInfo (if fileType = ''mp3'' then ''Accessing highest quality audio stream.''
                      else ''Accessing highest quality video stream.''),
             LogInfo (''Stream data is '' @ str_of s),
             LogInfo (''Starting download of stream at '' @ url)]\<rparr>)"
  using assms
  by (simp add: downloadYouTubeVideo_def select_stream_def download_and_convert_def
      stream_download_def emit_def split: if_splits)

lemma run_video:
  assumes "YouTube url = Inr yt" "title yt = Inr t"
    "fst (select_stream fileType yt w) = Inr s" "download_error s = None"
    "fileType \<noteq> ''mp3''"
  shows "downloadYouTubeVideo YouTube url fileType w =
     Returns RetHolder
       (w\<lparr>fs := (fs w)(os_path_join (os_path_join (home w) ''Downloads'') (default_filename s)
                      \<mapsto> payload s),
          ret := True,
          trace := trace w @
            [LogInfo ''Attempting to access URL.'',
             LogInfo ''URL access successful. Video has been found.'',
             LogInfo (''The video's title is '' @ t),
             LogInfo ''Accessing highest quality video stream.'',
             LogInfo (''Stream data is '' @ str_of s),
             LogInfo (''Starting download of stream at '' @ url),
             FsWrite (os_path_join (os_path_join (home w) ''Downloads'') (default_filename s))
               (payload s),
             LogInfo (''Finished download of stream at '' @ url),
             RetSet True,
             ShowInfo GUI_INFO_SUCCESS_TITLE GUI_INFO_SUCCESS_TEXT]\<rparr>)"
  using assms
  by (simp add: downloadYouTubeVideo_def select_stream_def download_and_convert_def
      stream_download_def success_exit_def emit_def ret_set_def Let_def)

lemma convert_to_mp3_eq:
  assumes "os_path_splitext outFile = (base, ext)" and "fs w outFile = Some b"
  shows "convert_to_mp3 outFile w =
     (if outFile = base @ ''.mp3''
      then Raises (FileNotFoundError outFile)
             (w\<lparr>fs := (fs w)(outFile := None),
                trace := trace w @
                  [LogInfo ''Saving file as .mp3 format.'',
                   LogWarning ''Overwriting file with identical name.'',
                   FsRemove outFile]\<rparr>)
      else Returns ()
             (w\<lparr>fs := ((fs w)(outFile := None))(base @ ''.mp3'' \<mapsto> b),
                trace := trace w @ [LogInfo ''Saving file as .mp3 format.''] @
                  (if fs w (base @ ''.mp3'') = None then []
                   else [LogWarning ''Overwriting file with identical name.'',
                         FsRemove (base @ ''.mp3'')]) @
                  [FsRename outFile (base @ ''.mp3'')]\<rparr>))"
proof (cases "outFile = base @ ''.mp3''")
  case True
  with assms show ?thesis
    by (simp add: convert_to_mp3_def os_path_isfile_def os_remove_def os_rename_def emit_def
        Let_def)
next
  case False
  have twist: "(fs w)(base @ ''.mp3'' := None, outFile := None, base @ ''.mp3'' \<mapsto> b)
                = (fs w)(outFile := None, base @ ''.mp3'' \<mapsto> b)"
    by (simp add: fun_eq_iff)
  from False assms twist show ?thesis
    by (cases "fs w (base @ ''.mp3'')")
       (simp_all add: convert_to_mp3_def os_path_isfile_def os_remove_def os_rename_def emit_def
         Let_def)
qed

lemma run_audio:
  assumes "YouTube url = Inr yt" "title yt = Inr t"
    "get_audio_only yt = Inr s" "download_error s = None"
    "os_path_splitext (os_path_join (os_path_join (home w) ''Downloads'') (default_filename s))
       = (base, ext)"
  shows "downloadYouTubeVideo YouTube url ''mp3'' w =
     (if os_path_join (os_path_join (home w) ''Downloads'') (default_filename s) = base @ ''.mp3''
      then Raises (FileNotFoundError
                    (os_path_join (os_path_join (home w) ''Downloads'') (default_filename s)))
             (w\<lparr>fs := (fs w)(os_path_join (os_path_join (home w) ''Downloads'')
                               (default_filename s) := None),
                trace := trace w @
                  [LogInfo ''Attempting to access URL.'',
                   LogInfo ''URL access successful. Video has been found.'',
                   LogInfo (''The video's title is '' @ t),
                   LogInfo ''Accessing highest quality audio stream.'',
                   LogInfo (''Stream data is '' @ str_of s),
                   LogInfo (''Starting download of stream at '' @ url),
                   FsWrite (os_path_join (os_path_join (home w) ''Downloads'')
                              (default_filename s)) (payload s),
                   LogInfo (''Finished download of stream at '' @ url),
                   LogInfo ''Saving file as .mp3 format.'',
                   LogWarning ''Overwriting file with identical name.'',
                   FsRemove (os_path_join (os_path_join (home w) ''Downloads'')
                               (default_filename s))]\<rparr>)
      else Returns RetHolder
             (w\<lparr>fs := (fs w)(os_path_join (os_path_join (home w) ''Downloads'')
                               (default_filename s) := None,
                             base @ ''.mp3'' \<mapsto> payload s),
                ret := True,
                trace := trace w @
                  [LogInfo ''Attempting to access URL.'',
                   LogInfo ''URL access successful. Video has been found.'',
                   LogInfo (''The video's title is '' @ t),
                   LogInfo ''Accessing highest quality audio stream.'',
                   LogInfo (''Stream data is '' @ str_of s),
                   LogInfo (''Starting download of stream at '' @ url),
                   FsWrite (os_path_join (os_path_join (home w) ''Downloads'')
                              (default_filename s)) (payload s),
                   LogInfo (''Finished download of stream at '' @ url),
                   LogInfo ''Saving file as .mp3 format.''] @
                  (if fs w (base @ ''.mp3'') = None then []
                   else [LogWarning ''Overwriting file with identical name.'',
                         FsRemove (base @ ''.mp3'')]) @
                  [FsRename (os_path_join (os_path_join (home w) ''Downloads'')
                               (default_filename s)) (base @ ''.mp3''),
                   RetSet True,
                   ShowInfo GUI_INFO_SUCCESS_TITLE GUI_INFO_SUCCESS_TEXT]\<rparr>))"
proof -
  define outFile where
    "outFile = os_path_join (os_path_join (home w) ''Downloads'') (default_filename s)"
  define w1 where
    "w1 = w\<lparr>fs := (fs w)(outFile \<mapsto> payload s),
            trace := trace w @
              [LogInfo ''Attempting to access URL.'',
               LogInfo ''URL access successful. Video has been found.'',
               LogInfo (''The video's title is '' @ t),
               LogInfo ''Accessing highest quality audio stream.'',
               LogInfo (''Stream data is '' @ str_of s),
               LogInfo (''Starting download of stream at '' @ url),
               FsWrite outFile (payload s),
               LogInfo (''Finished download of stream at '' @ url)]\<rparr>"
  have run: "downloadYouTubeVideo YouTube url ''mp3'' w =
      (case convert_to_mp3 outFile w1 of
         Raises e w \<Rightarrow> Raises e w
       | Returns _ w \<Rightarrow> success_exit w)"
    using assms(1-4)
    by (simp add: downloadYouTubeVideo_def select_stream_def download_and_convert_def
        stream_download_def emit_def Let_def outFile_def w1_def)
  have sp: "os_path_splitext outFile = (base, ext)"
    using assms(5) by (simp add: outFile_def)
  have f: "fs w1 outFile = Some (payload s)"
    by (simp add: w1_def)
  show ?thesis
    unfolding run convert_to_mp3_eq [OF sp f] outFile_def [symmetric]
    by (simp add: w1_def success_exit_def emit_def ret_set_def)
qed

text \<open>What a successful run implies about the provider and about the world it leaves.\<close>

lemma success_inv:
  assumes "downloadYouTubeVideo YouTube url fileType w = Returns RetHolder w'"
  obtains yt t s where "YouTube url = Inr yt" "title yt = Inr t"
    "fst (select_stream fileType yt w) = Inr s" "download_error s = None"
proof (cases rule: handler_cases
    [where YouTube = YouTube and url = url and fileType = fileType and w = w])
  case (url_error e)
  with assms show ?thesis by (simp add: run_url_error)
next
  case (title_error yt e)
  with assms show ?thesis by (simp add: run_title_error)
next
  case (select_error yt t e)
  with assms show ?thesis by (simp add: run_select_error)
next
  case (download_error yt t s e)
  with assms show ?thesis by (simp add: run_download_error)
next
  case (downloaded yt t s)
  then show ?thesis by (rule that)
qed

lemma audio_success_inv:
  assumes "downloadYouTubeVideo YouTube url ''mp3'' w = Returns RetHolder w'"
  obtains yt t s base ext where "YouTube url = Inr yt" "title yt = Inr t"
    "get_audio_only yt = Inr s" "download_error s = None"
    "os_path_splitext (download_path w s) = (base, ext)"
    "download_path w s \<noteq> base @ ''.mp3''"
    "home w' = home w"
    "fs w' = (fs w)(download_path w s := None, base @ ''.mp3'' \<mapsto> payload s)"
    "ret w' = True"
    "new_events w w' =
       [LogInfo ''Attempting to access URL.'',
        LogInfo ''URL access successful. Video has been found.'',
        LogInfo (''The video's title is '' @ t),
        LogInfo ''Accessing highest quality audio stream.'',
        LogInfo (''Stream data is '' @ str_of s),
        LogInfo (''Starting download of stream at '' @ url),
        FsWrite (download_path w s) (payload s),
        LogInfo (''Finished download of stream at '' @ url),
        LogInfo ''Saving file as .mp3 format.''] @
       (if fs w (base @ ''.mp3'') = None then []
        else [LogWarning ''Overwriting file with identical name.'',
              FsRemove (base @ ''.mp3'')]) @
       [FsRename (download_path w s) (base @ ''.mp3''),
        RetSet True,
        ShowInfo GUI_INFO_SUCCESS_TITLE GUI_INFO_SUCCESS_TEXT]"
proof -
  from assms obtain yt t s where
    yt: "YouTube url = Inr yt" and t: "title yt = Inr t" and
    sel: "fst (select_stream ''mp3'' yt w) = Inr s" and d: "download_error s = None"
    by (rule success_inv)
  from sel have a: "get_audio_only yt = Inr s"
    by (simp add: select_stream_def)
  obtain base ext where sp: "os_path_splitext (download_path w s) = (base, ext)"
    by (cases "os_path_splitext (download_path w s)")
  note r = run_audio [where YouTube = YouTube and url = url, OF yt t a d sp]
  have ne: "download_path w s \<noteq> base @ ''.mp3''"
  proof
    assume "download_path w s = base @ ''.mp3''"
    with assms r show False by simp
  qed
  with assms r have w': "w' =
      w\<lparr>fs := (fs w)(download_path w s := None, base @ ''.mp3'' \<mapsto> payload s),
        ret := True,
        trace := trace w @
          [LogInfo ''Attempting to access URL.'',
           LogInfo ''URL access successful. Video has been found.'',
           LogInfo (''The video's title is '' @ t),
           LogInfo ''Accessing highest quality audio stream.'',
           LogInfo (''Stream data is '' @ str_of s),
           LogInfo (''Starting download of stream at '' @ url),
           FsWrite (download_path w s) (payload s),
           LogInfo (''Finished download of stream at '' @ url),
           LogInfo ''Saving file as .mp3 format.''] @
          (if fs w (base @ ''.mp3'') = None then []
           else [LogWarning ''Overwriting file with identical name.'',
                 FsRemove (base @ ''.mp3'')]) @
          [FsRename (download_path w s) (base @ ''.mp3''),
           RetSet True,
           ShowInfo GUI_INFO_SUCCESS_TITLE GUI_INFO_SUCCESS_TEXT]\<rparr>"
    by simp
  show ?thesis
    by (rule that [OF yt t a d sp ne]) (simp_all add: w' new_events_def)
qed

lemma video_success_inv:
  assumes "downloadYouTubeVideo YouTube url fileType w = Returns RetHolder w'"
    and "fileType \<noteq> ''mp3''"
  obtains yt t s where "YouTube url = Inr yt" "title yt = Inr t"
    "get_highest_resolution yt = Inr s" "download_error s = None"
    "home w' = home w"
    "fs w' = (fs w)(download_path w s \<mapsto> payload s)"
    "ret w' = True"
    "new_events w w' =
       [LogInfo ''Attempting to access URL.'',
        LogInfo ''URL access successful. Video has been found.'',
        LogInfo (''The video's title is '' @ t),
        LogInfo ''Accessing highest quality video stream.'',
        LogInfo (''Stream data is '' @ str_of s),
        LogInfo (''Starting download of stream at '' @ url),
        FsWrite (download_path w s) (payload s),
        LogInfo (''Finished download of stream at '' @ url),
        RetSet True,
        ShowInfo GUI_INFO_SUCCESS_TITLE GUI_INFO_SUCCESS_TEXT]"
proof -
  from assms(1) obtain yt t s where
    yt: "YouTube url = Inr yt" and t: "title yt = Inr t" and
    sel: "fst (select_stream fileType yt w) = Inr s" and d: "download_error s = None"
    by (rule success_inv)
  from sel assms(2) have v: "get_highest_resolution yt = Inr s"
    by (simp add: select_stream_def)
  from assms(1) run_video [where YouTube = YouTube and url = url, OF yt t sel d assms(2)] have w': "w' =
      w\<lparr>fs := (fs w)(download_path w s \<mapsto> payload s),
        ret := True,
        trace := trace w @
          [LogInfo ''Attempting to access URL.'',
           LogInfo ''URL access successful. Video has been found.'',
           LogInfo (''The video's title is '' @ t),
           LogInfo ''Accessing highest quality video stream.'',
           LogInfo (''Stream data is '' @ str_of s),
           LogInfo (''Starting download of stream at '' @ url),
           FsWrite (download_path w s) (payload s),
           LogInfo (''Finished download of stream at '' @ url),
           RetSet True,
           ShowInfo GUI_INFO_SUCCESS_TITLE GUI_INFO_SUCCESS_TEXT]\<rparr>"
    by simp
  show ?thesis
    by (rule that [OF yt t v d]) (simp_all add: w' new_events_def)
qed

subsection \<open>Facts about \<^verbatim>\<open>rfind\<close>, \<^verbatim>\<open>splitext\<close> and \<^verbatim>\<open>split\<close>\<close>

lemma rfind_lower: "- 1 \<le> rfind c p"
  by (induction p) (auto simp: Let_def)

lemma rfind_notin: "c \<notin> set p \<Longrightarrow> rfind c p = - 1"
  by (induction p) (auto simp: Let_def)

lemma rfind_in: "c \<in> set p \<Longrightarrow> 0 \<le> rfind c p"
  by (induction p) (auto simp: Let_def)

lemma rfind_upper: "rfind c p < int (length p)"
  by (induction p) (auto simp: Let_def)

lemma rfind_append:
  "rfind c (xs @ ys) = (if c \<in> set ys then int (length xs) + rfind c ys else rfind c xs)"
proof (induction xs)
  case Nil
  then show ?case by (simp add: rfind_notin)
next
  case (Cons x xs)
  then show ?case
    using rfind_in [of c ys] rfind_lower [of c ys]
    by (auto simp: Let_def)
qed

lemma no_sep_after_rfind:
  assumes "rfind c p < int d" "d \<le> length p"
  shows "c \<notin> set (drop d p)"
proof
  assume "c \<in> set (drop d p)"
  then have "rfind c (take d p @ drop d p) = int (length (take d p)) + rfind c (drop d p)"
    by (simp only: rfind_append if_True)
  moreover have "0 \<le> rfind c (drop d p)"
    using \<open>c \<in> set (drop d p)\<close> by (rule rfind_in)
  ultimately show False using assms by simp
qed

lemma splitext_append: "os_path_splitext p = (base, ext) \<Longrightarrow> p = base @ ext"
  by (auto simp: os_path_splitext_def Let_def split: if_splits)

lemma splitext_ext_no_sep:
  assumes "os_path_splitext p = (base, ext)"
  shows "CHR ''/'' \<notin> set ext"
proof (cases "rfind CHR ''.'' p > rfind CHR ''/'' p
          \<and> \<not> leading_dots_only p (rfind CHR ''/'' p + 1) (rfind CHR ''.'' p)")
  case True
  then have ext: "ext = drop (nat (rfind CHR ''.'' p)) p"
    using assms by (simp add: os_path_splitext_def Let_def)
  have "rfind CHR ''/'' p < int (nat (rfind CHR ''.'' p))"
    using True rfind_lower [of "CHR ''/''" p] by linarith
  moreover have "nat (rfind CHR ''.'' p) \<le> length p"
    using rfind_upper [of "CHR ''.''" p] by linarith
  ultimately show ?thesis
    unfolding ext by (rule no_sep_after_rfind)
next
  case False
  then have "ext = []"
    using assms by (auto simp: os_path_splitext_def Let_def split: if_splits)
  then show ?thesis by simp
qed

lemma rfind_sep_base:
  assumes "os_path_splitext p = (base, ext)"
  shows "rfind CHR ''/'' p = rfind CHR ''/'' base"
  using splitext_ext_no_sep [OF assms] splitext_append [OF assms]
  by (simp add: rfind_append)

lemma rfind_sep_mp3: "rfind CHR ''/'' (base @ ''.mp3'') = rfind CHR ''/'' base"
  by (simp add: rfind_append)

lemma sep_within: "nat (rfind CHR ''/'' base + 1) \<le> length base"
  using rfind_upper [of "CHR ''/''" base] by linarith

lemma split_append_no_sep:
  assumes "CHR ''/'' \<notin> set x"
  shows "os_path_split (base @ x) = (fst (os_path_split base), snd (os_path_split base) @ x)"
  using assms sep_within [of base]
  by (simp add: os_path_split_def Let_def rfind_append)

lemma convert_frame:
  assumes "convert_to_mp3 outFile w = Returns u w'"
    and "os_path_splitext outFile = (base, ext)"
  shows "fs w' (base @ ''.mp3'') = fs w outFile
       \<and> (\<forall>p. p \<noteq> outFile \<and> p \<noteq> base @ ''.mp3'' \<longrightarrow> fs w' p = fs w p)"
  using assms
  by (auto simp: handler_defs Let_def split: option.splits if_splits outcome.splits)

subsection \<open>The concrete provider evaluated\<close>

lemma demo_song: "demo_provider ''https://youtu.be/song'' = Inr song_video"
  by (simp add: demo_provider_def)

lemma demo_restricted: "demo_provider ''https://youtu.be/restricted'' = Inr restricted_video"
  by (simp add: demo_provider_def)

lemma demo_broken: "demo_provider ''https://youtu.be/broken'' = Inr broken_video"
  by (simp add: demo_provider_def)

lemma demo_empty: "demo_provider [] = Inl (ProviderError ''RegexMatchError'')"
  by (simp add: demo_provider_def)

lemma demo_unavailable: "demo_provider ''https://youtu.be/unavailable'' = Inr unavailable_video"
  by (simp add: demo_provider_def)

lemma demo_path:
  "os_path_join (os_path_join (home demo_world) ''Downloads'') (default_filename song_stream)
     = ''/home/user/Downloads/Song.mp4''"
  by (simp add: os_path_join_def demo_world_def song_stream_def)

lemma demo_payload: "payload song_stream = ''BYTES''"
  by (simp add: song_stream_def)

lemma demo_splitext:
  "os_path_splitext ''/home/user/Downloads/Song.mp4'' = (''/home/user/Downloads/Song'', ''.mp4'')"
  by code_simp

lemma demo_audio_run:
  "downloadYouTubeVideo demo_provider ''https://youtu.be/song'' ''mp3'' demo_world =
     Returns RetHolder song_audio_world"
proof -
  have t: "title song_video = Inr ''Song''"
    by (simp add: song_video_def)
  have a: "get_audio_only song_video = Inr song_stream"
    by (simp add: song_video_def)
  have d: "download_error song_stream = None"
    by (simp add: song_stream_def)
  have sp: "os_path_splitext (download_path demo_world song_stream)
              = (''/home/user/Downloads/Song'', ''.mp4'')"
    by (simp only: demo_path demo_splitext)
  show ?thesis
    using run_audio [where YouTube = demo_provider and w = demo_world, OF demo_song t a d sp]
    unfolding demo_path
    by (simp add: song_audio_world_def demo_world_def song_stream_def gui_defs)
qed

lemma demo_broken_run:
  "downloadYouTubeVideo demo_provider ''https://youtu.be/broken'' ''mp4'' demo_world =
     Raises (ProviderError ''IncompleteRead'')
       (demo_world\<lparr>trace :=
          [LogInfo ''Attempting to access URL.'',
           LogInfo ''URL access successful. Video has been found.'',
           LogInfo ''The video's title is Song'',
           LogInfo ''Accessing highest quality video stream.'',
           LogInfo ''Stream data is <Stream: itag=140>'',
           LogInfo ''Starting download of stream at https://youtu.be/broken'']\<rparr>)"
proof -
  have t: "title broken_video = Inr ''Song''"
    by (simp add: broken_video_def)
  have s: "fst (select_stream ''mp4'' broken_video demo_world) = Inr broken_stream"
    by (simp add: select_stream_def broken_video_def)
  have d: "download_error broken_stream = Some (ProviderError ''IncompleteRead'')"
    by (simp add: broken_stream_def)
  show ?thesis
    using run_download_error [where YouTube = demo_provider and w = demo_world,
        OF demo_broken t s d]
    by (simp add: demo_world_def broken_stream_def song_stream_def)
qed

subsection \<open>URL resolution fails\<close>

text \<open>
  When the provider's constructor raises for the submitted url, the handler returns
  \<^verbatim>\<open>None\<close> after logging, showing the "URL Error" dialog and setting \<^verbatim>\<open>ret\<close> to False. The
  dialog's message, and so the error kind of the run, is URL_EMPTY when the url is the
  empty string and URL_INVALID for every other url; the file system is not touched.
\<close>

lemma constructor_failure_reports_url_error:
  assumes "YouTube url = Inl e"
  shows "\<exists>w'. downloadYouTubeVideo YouTube url fileType w = Returns PyNone w'
        \<and> ret w' = False \<and> fs w' = fs w
        \<and> new_events w w' =
            [LogInfo ''Attempting to access URL.'',
             LogWarning (''Unable to access YouTube URL of '' @ url),
             LogException e,
             LogError ''The YouTube link could not be accessed.'',
             ShowError GUI_ERROR_URL_TITLE
               (if url = [] then GUI_ERROR_URL_TEXT_EMPTY else GUI_ERROR_URL_TEXT_INVALID),
             RetSet False]
        \<and> errorKinds (new_events w w') = [if url = [] then URL_EMPTY else URL_INVALID]"
  using assms
  by (simp add: handler_defs errorKinds_def gui_defs)

lemma constructor_failure_at_empty_url:
  "\<exists>w'. downloadYouTubeVideo demo_provider [] ''mp4'' demo_world = Returns PyNone w'
        \<and> errorKinds (new_events demo_world w') = [URL_EMPTY]"
  using demo_empty constructor_failure_reports_url_error
    [where YouTube = demo_provider and url = "[]" and fileType = "''mp4''" and w = demo_world]
  by auto

text \<open>
  Claim C1 says that whenever resolving the url through the provider fails, the handler
  returns the failure result with the URL error kind. The handler guards the constructor
  call alone; \<^verbatim>\<open>yt.title\<close> is read at line 146, in the \<^verbatim>\<open>finally\<close> clause, with no handler
  around it. At a url that the constructor accepts and whose video cannot be reached,
  the provider's exception leaves the handler after the two log lines: no dialog is
  shown, so the run has no error kind, and \<^verbatim>\<open>ret\<close> is never set.
\<close>

theorem title_failure_escapes_url_handler:
  "downloadYouTubeVideo demo_provider ''https://youtu.be/unavailable'' ''mp4'' demo_world =
     Raises (ProviderError ''VideoUnavailable'')
       (demo_world\<lparr>trace :=
          [LogInfo ''Attempting to access URL.'',
           LogInfo ''URL access successful. Video has been found.'']\<rparr>)"
proof -
  have t: "title unavailable_video = Inl (ProviderError ''VideoUnavailable'')"
    by (simp add: unavailable_video_def)
  show ?thesis
    using run_title_error [where YouTube = demo_provider and w = demo_world and fileType = "''mp4''",
        OF demo_unavailable t]
    by (simp add: demo_world_def)
qed

subsection \<open>Audio requests\<close>

text \<open>
  Claim C2. Whenever an audio request (file type \<^verbatim>\<open>mp3\<close>) produces its success result, the
  url resolved, the audio-only stream was selected and downloaded to the path the provider
  chose, and that file was renamed to the \<^verbatim>\<open>splitext\<close> base of its path plus \<^verbatim>\<open>.mp3\<close>,
  whatever extension the provider gave it: after the run the \<^verbatim>\<open>.mp3\<close> path holds the
  stream's bytes and the downloaded path is gone, and the rename happens before \<^verbatim>\<open>ret\<close>
  is set and the success dialog is shown.
\<close>

theorem audio_request_renames_to_mp3:
  assumes "downloadYouTubeVideo YouTube url ''mp3'' w = Returns RetHolder w'"
  shows "\<exists>yt t s base ext.
           YouTube url = Inr yt \<and> title yt = Inr t \<and> get_audio_only yt = Inr s
         \<and> os_path_splitext (download_path w s) = (base, ext)
         \<and> download_path w s \<noteq> base @ ''.mp3''
         \<and> fs w' (base @ ''.mp3'') = Some (payload s)
         \<and> fs w' (download_path w s) = None
         \<and> new_events w w' =
              [LogInfo ''Attempting to access URL.'',
               LogInfo ''URL access successful. Video has been found.'',
               LogInfo (''The video's title is '' @ t),
               LogInfo ''Accessing highest quality audio stream.'',
               LogInfo (''Stream data is '' @ str_of s),
               LogInfo (''Starting download of stream at '' @ url),
               FsWrite (download_path w s) (payload s),
               LogInfo (''Finished download of stream at '' @ url),
               LogInfo ''Saving file as .mp3 format.''] @
              (if fs w (base @ ''.mp3'') = None then []
               else [LogWarning ''Overwriting file with identical name.'',
                     FsRemove (base @ ''.mp3'')]) @
              [FsRename (download_path w s) (base @ ''.mp3''),
               RetSet True,
               ShowInfo GUI_INFO_SUCCESS_TITLE GUI_INFO_SUCCESS_TEXT]"
proof -
  from assms obtain yt t s base ext where
    f: "YouTube url = Inr yt" "title yt = Inr t" "get_audio_only yt = Inr s"
       "os_path_splitext (download_path w s) = (base, ext)"
       "download_path w s \<noteq> base @ ''.mp3''" and
    fs': "fs w' = (fs w)(download_path w s := None, base @ ''.mp3'' \<mapsto> payload s)" and
    ev: "new_events w w' =
       [LogInfo ''Attempting to access URL.'',
        LogInfo ''URL access successful. Video has been found.'',
        LogInfo (''The video's title is '' @ t),
        LogInfo ''Accessing highest quality audio stream.'',
        LogInfo (''Stream data is '' @ str_of s),
        LogInfo (''Starting download of stream at '' @ url),
        FsWrite (download_path w s) (payload s),
        LogInfo (''Finished download of stream at '' @ url),
        LogInfo ''Saving file as .mp3 format.''] @
       (if fs w (base @ ''.mp3'') = None then []
        else [LogWarning ''Overwriting file with identical name.'',
              FsRemove (base @ ''.mp3'')]) @
       [FsRename (download_path w s) (base @ ''.mp3''),
        RetSet True,
        ShowInfo GUI_INFO_SUCCESS_TITLE GUI_INFO_SUCCESS_TEXT]"
    by (rule audio_success_inv)
  have new: "fs w' (base @ ''.mp3'') = Some (payload s)"
    by (simp add: fs')
  have old: "fs w' (download_path w s) = None"
    using f(5) by (simp add: fs')
  from f new old ev show ?thesis by blast
qed

theorem audio_request_renames_to_mp3_witness:
  "downloadYouTubeVideo demo_provider ''https://youtu.be/song'' ''mp3'' demo_world =
     Returns RetHolder song_audio_world
   \<and> fs song_audio_world ''/home/user/Downloads/Song.mp3'' = Some ''BYTES''
   \<and> fs song_audio_world ''/home/user/Downloads/Song.mp4'' = None"
proof -
  from audio_request_renames_to_mp3 [OF demo_audio_run] obtain yt s base ext where
    yt: "demo_provider ''https://youtu.be/song'' = Inr yt" and
    s: "get_audio_only yt = Inr s" and
    sp: "os_path_splitext (download_path demo_world s) = (base, ext)" and
    new: "fs song_audio_world (base @ ''.mp3'') = Some (payload s)" and
    old: "fs song_audio_world (download_path demo_world s) = None"
    by blast
  from yt have yt': "yt = song_video" by (simp add: demo_song)
  from s have s': "s = song_stream" by (simp add: yt' song_video_def)
  from sp have base: "base = ''/home/user/Downloads/Song''"
    by (simp add: s' demo_path demo_splitext)
  from new old show ?thesis
    using demo_audio_run by (simp add: base s' demo_path demo_payload)
qed

subsection \<open>Stream selection fails\<close>

text \<open>
  Claim C3. When the url resolves and the title is read, and the stream selection for the
  requested file type raises, the handler returns \<^verbatim>\<open>None\<close> after showing the
  "Age Restriction Error" dialog and setting \<^verbatim>\<open>ret\<close> to False: the error kind of the run
  is ACCESS_RESTRICTED. The download is never reached: no file is written and the file
  system is as before.
\<close>

theorem selection_failure_reports_access_restricted:
  assumes "YouTube url = Inr yt" and "title yt = Inr t"
    and "fst (select_stream fileType yt w) = Inl e"
  shows "\<exists>w'. downloadYouTubeVideo YouTube url fileType w = Returns PyNone w'
        \<and> ret w' = False \<and> fs w' = fs w
        \<and> new_events w w' =
            [LogInfo ''Attempting to access URL.'',
             LogInfo ''URL access successful. Video has been found.'',
             LogInfo (''The video's title is '' @ t),
             LogInfo (if fileType = ''mp3'' then ''Accessing highest quality audio stream.''
                      else ''Accessing highest quality video stream.''),
             LogError ''The YouTube video is age restricted and cannot be downloaded.'',
             ShowError GUI_ERROR_AGE_TITLE GUI_ERROR_AGE_TEXT,
             RetSet False]
        \<and> filter is_FsWrite (new_events w w') = []
        \<and> errorKinds (new_events w w') = [ACCESS_RESTRICTED]"
  using assms
  by (simp add: handler_defs errorKinds_def gui_defs split: if_splits)

theorem selection_failure_reports_access_restricted_witness:
  "demo_provider ''https://youtu.be/restricted'' = Inr restricted_video
   \<and> title restricted_video = Inr ''Song''
   \<and> fst (select_stream ''mp3'' restricted_video demo_world)
       = Inl (ProviderError ''AgeRestrictedError'')
   \<and> (\<exists>w'. downloadYouTubeVideo demo_provider ''https://youtu.be/restricted'' ''mp3'' demo_world
            = Returns PyNone w'
          \<and> fs w' = fs demo_world
          \<and> errorKinds (new_events demo_world w') = [ACCESS_RESTRICTED])"
proof -
  have h1: "demo_provider ''https://youtu.be/restricted'' = Inr restricted_video"
    by (simp add: demo_provider_def)
  have h2: "title restricted_video = Inr ''Song''"
    by (simp add: restricted_video_def)
  have h3: "fst (select_stream ''mp3'' restricted_video demo_world)
              = Inl (ProviderError ''AgeRestrictedError'')"
    by (simp add: select_stream_def restricted_video_def)
  from h1 h2 h3 selection_failure_reports_access_restricted
    [where YouTube = demo_provider and url = "''https://youtu.be/restricted''"
       and yt = restricted_video and fileType = "''mp3''" and w = demo_world]
  show ?thesis by auto
qed

subsection \<open>Which failures are caught\<close>

text \<open>
  Claim C4, as amended. A failure of the provider's constructor and a failure of stream
  selection are caught where they arise: the handler shows exactly one modal error
  dialog and returns \<^verbatim>\<open>None\<close>. The download has no handler: when the selected stream's
  download raises, that exception leaves the request handler for its caller, no dialog
  is shown and \<^verbatim>\<open>ret\<close> is not set. Whenever an exception leaves the handler after the title
  was read, the stream selection had succeeded, so the exception comes from the download
  and rename phase, and no dialog has been shown.
\<close>

theorem caught_failures_show_dialog:
  "(\<forall>e. YouTube url = Inl e \<longrightarrow>
      (\<exists>w'. downloadYouTubeVideo YouTube url fileType w = Returns PyNone w'
           \<and> filter is_dialog (new_events w w') =
               [ShowError GUI_ERROR_URL_TITLE
                  (if url = [] then GUI_ERROR_URL_TEXT_EMPTY else GUI_ERROR_URL_TEXT_INVALID)]))
 \<and> (\<forall>yt t e. YouTube url = Inr yt \<and> title yt = Inr t
         \<and> fst (select_stream fileType yt w) = Inl e \<longrightarrow>
      (\<exists>w'. downloadYouTubeVideo YouTube url fileType w = Returns PyNone w'
           \<and> filter is_dialog (new_events w w') =
               [ShowError GUI_ERROR_AGE_TITLE GUI_ERROR_AGE_TEXT]))
 \<and> (\<forall>yt t s e. YouTube url = Inr yt \<and> title yt = Inr t
         \<and> fst (select_stream fileType yt w) = Inr s \<and> download_error s = Some e \<longrightarrow>
      (\<exists>w'. downloadYouTubeVideo YouTube url fileType w = Raises e w'
           \<and> filter is_dialog (new_events w w') = []
           \<and> filter is_RetSet (new_events w w') = []
           \<and> ret w' = ret w \<and> fs w' = fs w))
 \<and> (\<forall>yt t e w'. YouTube url = Inr yt \<and> title yt = Inr t
         \<and> downloadYouTubeVideo YouTube url fileType w = Raises e w' \<longrightarrow>
      filter is_dialog (new_events w w') = []
      \<and> filter is_RetSet (new_events w w') = []
      \<and> (\<exists>s. fst (select_stream fileType yt w) = Inr s))"
proof -
  have p1: "\<exists>w'. downloadYouTubeVideo YouTube url fileType w = Returns PyNone w'
           \<and> filter is_dialog (new_events w w') =
               [ShowError GUI_ERROR_URL_TITLE
                  (if url = [] then GUI_ERROR_URL_TEXT_EMPTY else GUI_ERROR_URL_TEXT_INVALID)]"
    if "YouTube url = Inl e" for e
    using that by (simp add: run_url_error new_events_def)
  have p2: "\<exists>w'. downloadYouTubeVideo YouTube url fileType w = Returns PyNone w'
           \<and> filter is_dialog (new_events w w') =
               [ShowError GUI_ERROR_AGE_TITLE GUI_ERROR_AGE_TEXT]"
    if "YouTube url = Inr yt \<and> title yt = Inr t \<and> fst (select_stream fileType yt w) = Inl e"
    for yt t e
    using that by (simp add: run_select_error new_events_def)
  have p3: "\<exists>w'. downloadYouTubeVideo YouTube url fileType w = Raises e w'
           \<and> filter is_dialog (new_events w w') = []
           \<and> filter is_RetSet (new_events w w') = []
           \<and> ret w' = ret w \<and> fs w' = fs w"
    if "YouTube url = Inr yt \<and> title yt = Inr t
         \<and> fst (select_stream fileType yt w) = Inr s \<and> download_error s = Some e"
    for yt t s e
    using that by (simp add: run_download_error new_events_def)
  have p4: "filter is_dialog (new_events w w') = []
      \<and> filter is_RetSet (new_events w w') = []
      \<and> (\<exists>s. fst (select_stream fileType yt w) = Inr s)"
    if h: "YouTube url = Inr yt \<and> title yt = Inr t
         \<and> downloadYouTubeVideo YouTube url fileType w = Raises e w'"
    for yt t e w'
  proof -
    from h have yt: "YouTube url = Inr yt" and t: "title yt = Inr t" and
      r: "downloadYouTubeVideo YouTube url fileType w = Raises e w'"
      by simp_all
    show ?thesis
    proof (cases "fst (select_stream fileType yt w)")
      case (Inl e')
      with r yt t show ?thesis by (simp add: run_select_error)
    next
      case sel: (Inr s)
      show ?thesis
      proof (cases "download_error s")
        case (Some e')
        with r yt t sel have "filter is_dialog (new_events w w') = []"
          "filter is_RetSet (new_events w w') = []"
          by (auto simp: run_download_error new_events_def)
        with sel show ?thesis by simp
      next
        case None
        show ?thesis
        proof (cases "fileType = ''mp3''")
          case True
          obtain base ext where sp: "os_path_splitext (download_path w s) = (base, ext)"
            by (cases "os_path_splitext (download_path w s)")
          from sel True have a: "get_audio_only yt = Inr s"
            by (simp add: select_stream_def)
          from r True
            run_audio [where YouTube = YouTube and url = url, OF yt t a None sp]
          have "filter is_dialog (new_events w w') = []"
            "filter is_RetSet (new_events w w') = []"
            by (auto simp: new_events_def split: if_splits)
          with sel show ?thesis by simp
        next
          case False
          with r run_video [where YouTube = YouTube and url = url, OF yt t sel None False]
          show ?thesis by simp
        qed
      qed
    qed
  qed
  from p1 p2 p3 p4 show ?thesis by blast
qed

theorem caught_failures_show_dialog_witness:
  "(demo_provider [] = Inl (ProviderError ''RegexMatchError'')
     \<and> (\<exists>w'. downloadYouTubeVideo demo_provider [] ''mp4'' demo_world = Returns PyNone w'
            \<and> filter is_dialog (new_events demo_world w') =
                [ShowError GUI_ERROR_URL_TITLE GUI_ERROR_URL_TEXT_EMPTY]))
   \<and> (demo_provider ''https://youtu.be/restricted'' = Inr restricted_video
     \<and> title restricted_video = Inr ''Song''
     \<and> fst (select_stream ''mp4'' restricted_video demo_world)
         = Inl (ProviderError ''AgeRestrictedError'')
     \<and> (\<exists>w'. downloadYouTubeVideo demo_provider ''https://youtu.be/restricted'' ''mp4'' demo_world
              = Returns PyNone w'
            \<and> filter is_dialog (new_events demo_world w') =
                [ShowError GUI_ERROR_AGE_TITLE GUI_ERROR_AGE_TEXT]))
   \<and> (demo_provider ''https://youtu.be/broken'' = Inr broken_video
     \<and> title broken_video = Inr ''Song''
     \<and> fst (select_stream ''mp4'' broken_video demo_world) = Inr broken_stream
     \<and> download_error broken_stream = Some (ProviderError ''IncompleteRead'')
     \<and> (\<exists>w'. downloadYouTubeVideo demo_provider ''https://youtu.be/broken'' ''mp4'' demo_world
              = Raises (ProviderError ''IncompleteRead'') w'
            \<and> filter is_dialog (new_events demo_world w') = []
            \<and> filter is_RetSet (new_events demo_world w') = []
            \<and> ret w' = ret demo_world \<and> fs w' = fs demo_world))"
proof -
  have t: "title restricted_video = Inr ''Song''"
    by (simp add: restricted_video_def)
  have s: "fst (select_stream ''mp4'' restricted_video demo_world)
             = Inl (ProviderError ''AgeRestrictedError'')"
    by (simp add: select_stream_def restricted_video_def)
  have t': "title broken_video = Inr ''Song''"
    by (simp add: broken_video_def)
  have s': "fst (select_stream ''mp4'' broken_video demo_world) = Inr broken_stream"
    by (simp add: select_stream_def broken_video_def)
  have d': "download_error broken_stream = Some (ProviderError ''IncompleteRead'')"
    by (simp add: broken_stream_def)
  have a: "\<exists>w'. downloadYouTubeVideo demo_provider [] ''mp4'' demo_world = Returns PyNone w'
            \<and> filter is_dialog (new_events demo_world w') =
                [ShowError GUI_ERROR_URL_TITLE GUI_ERROR_URL_TEXT_EMPTY]"
    using demo_empty caught_failures_show_dialog
      [where YouTube = demo_provider and url = "[]" and fileType = "''mp4''" and w = demo_world]
    by simp
  have b: "\<exists>w'. downloadYouTubeVideo demo_provider ''https://youtu.be/restricted'' ''mp4'' demo_world
              = Returns PyNone w'
            \<and> filter is_dialog (new_events demo_world w') =
                [ShowError GUI_ERROR_AGE_TITLE GUI_ERROR_AGE_TEXT]"
    using demo_restricted t s caught_failures_show_dialog
      [where YouTube = demo_provider and url = "''https://youtu.be/restricted''"
         and fileType = "''mp4''" and w = demo_world]
    by blast
  have c: "\<exists>w'. downloadYouTubeVideo demo_provider ''https://youtu.be/broken'' ''mp4'' demo_world
              = Raises (ProviderError ''IncompleteRead'') w'
            \<and> filter is_dialog (new_events demo_world w') = []
            \<and> filter is_RetSet (new_events demo_world w') = []
            \<and> ret w' = ret demo_world \<and> fs w' = fs demo_world"
    using demo_broken t' s' d' caught_failures_show_dialog
      [where YouTube = demo_provider and url = "''https://youtu.be/broken''"
         and fileType = "''mp4''" and w = demo_world]
    by blast
  from demo_empty demo_restricted demo_broken t s t' s' d' a b c show ?thesis by blast
qed

text \<open>
  Claim C4 as stated does not hold: no \<^verbatim>\<open>try\<close> surrounds the download. For the url whose
  stream breaks during the download, the provider's exception leaves the handler, and
  the trace of the run holds no dialog.
\<close>

theorem download_failure_propagates:
  "downloadYouTubeVideo demo_provider ''https://youtu.be/broken'' ''mp4'' demo_world =
     Raises (ProviderError ''IncompleteRead'')
       (demo_world\<lparr>trace :=
          [LogInfo ''Attempting to access URL.'',
           LogInfo ''URL access successful. Video has been found.'',
           LogInfo ''The video's title is Song'',
           LogInfo ''Accessing highest quality video stream.'',
           LogInfo ''Stream data is <Stream: itag=140>'',
           LogInfo ''Starting download of stream at https://youtu.be/broken'']\<rparr>)"
  by (rule demo_broken_run)

subsection \<open>Running the audio request twice\<close>

text \<open>
  Claim C5. After a successful audio request, the same request run again in the world
  the first one left succeeds as well: it finds the \<^verbatim>\<open>.mp3\<close> file of the first run, logs the
  overwrite warning, removes that file and renames its own download to the same path.
  The file system after the second run is the file system after the first: the
  \<^verbatim>\<open>.mp3\<close> path holds the stream's bytes and the downloaded path is absent.
\<close>

theorem repeated_audio_request_overwrites:
  assumes "downloadYouTubeVideo YouTube url ''mp3'' w = Returns RetHolder w1"
  shows "\<exists>w2 yt t s base ext.
           downloadYouTubeVideo YouTube url ''mp3'' w1 = Returns RetHolder w2
         \<and> YouTube url = Inr yt \<and> title yt = Inr t \<and> get_audio_only yt = Inr s
         \<and> os_path_splitext (download_path w s) = (base, ext)
         \<and> os_path_isfile (base @ ''.mp3'') w1
         \<and> fs w2 = fs w1
         \<and> fs w2 (base @ ''.mp3'') = Some (payload s)
         \<and> fs w2 (download_path w s) = None
         \<and> new_events w1 w2 =
            [LogInfo ''Attempting to access URL.'',
             LogInfo ''URL access successful. Video has been found.'',
             LogInfo (''The video's title is '' @ t),
             LogInfo ''Accessing highest quality audio stream.'',
             LogInfo (''Stream data is '' @ str_of s),
             LogInfo (''Starting download of stream at '' @ url),
             FsWrite (download_path w s) (payload s),
             LogInfo (''Finished download of stream at '' @ url),
             LogInfo ''Saving file as .mp3 format.'',
             LogWarning ''Overwriting file with identical name.'',
             FsRemove (base @ ''.mp3''),
             FsRename (download_path w s) (base @ ''.mp3''),
             RetSet True,
             ShowInfo GUI_INFO_SUCCESS_TITLE GUI_INFO_SUCCESS_TEXT]"
proof -
  from assms obtain yt t s base ext where
    yt: "YouTube url = Inr yt" and t: "title yt = Inr t" and
    a: "get_audio_only yt = Inr s" and d: "download_error s = None" and
    sp: "os_path_splitext (download_path w s) = (base, ext)" and
    ne: "download_path w s \<noteq> base @ ''.mp3''" and
    h: "home w1 = home w" and
    fs1: "fs w1 = (fs w)(download_path w s := None, base @ ''.mp3'' \<mapsto> payload s)"
    by (rule audio_success_inv)
  have new1: "fs w1 (base @ ''.mp3'') = Some (payload s)"
    by (simp add: fs1)
  have old1: "fs w1 (download_path w s) = None"
    using ne by (simp add: fs1)
  have same: "(fs w1)(download_path w s := None, base @ ''.mp3'' \<mapsto> payload s) = fs w1"
    using new1 old1 by (simp add: fun_eq_iff)
  define w2 where "w2 = w1\<lparr>ret := True,
      trace := trace w1 @
        [LogInfo ''Attempting to access URL.'',
         LogInfo ''URL access successful. Video has been found.'',
         LogInfo (''The video's title is '' @ t),
         LogInfo ''Accessing highest quality audio stream.'',
         LogInfo (''Stream data is '' @ str_of s),
         LogInfo (''Starting download of stream at '' @ url),
         FsWrite (download_path w s) (payload s),
         LogInfo (''Finished download of stream at '' @ url),
         LogInfo ''Saving file as .mp3 format.'',
         LogWarning ''Overwriting file with identical name.'',
         FsRemove (base @ ''.mp3''),
         FsRename (download_path w s) (base @ ''.mp3''),
         RetSet True,
         ShowInfo GUI_INFO_SUCCESS_TITLE GUI_INFO_SUCCESS_TEXT]\<rparr>"
  have sp1: "os_path_splitext (download_path w1 s) = (base, ext)"
    using sp by (simp add: h)
  have run2: "downloadYouTubeVideo YouTube url ''mp3'' w1 = Returns RetHolder w2"
    using run_audio [where YouTube = YouTube and url = url, OF yt t a d sp1] ne new1 same
    by (simp add: h w2_def)
  have isf: "os_path_isfile (base @ ''.mp3'') w1"
    by (simp add: os_path_isfile_def new1)
  have fs2: "fs w2 = fs w1"
    by (simp add: w2_def)
  have ev: "new_events w1 w2 =
        [LogInfo ''Attempting to access URL.'',
         LogInfo ''URL access successful. Video has been found.'',
         LogInfo (''The video's title is '' @ t),
         LogInfo ''Accessing highest quality audio stream.'',
         LogInfo (''Stream data is '' @ str_of s),
         LogInfo (''Starting download of stream at '' @ url),
         FsWrite (download_path w s) (payload s),
         LogInfo (''Finished download of stream at '' @ url),
         LogInfo ''Saving file as .mp3 format.'',
         LogWarning ''Overwriting file with identical name.'',
         FsRemove (base @ ''.mp3''),
         FsRename (download_path w s) (base @ ''.mp3''),
         RetSet True,
         ShowInfo GUI_INFO_SUCCESS_TITLE GUI_INFO_SUCCESS_TEXT]"
    by (simp add: new_events_def w2_def)
  from new1 old1 have "fs w2 (base @ ''.mp3'') = Some (payload s)"
    "fs w2 (download_path w s) = None"
    by (simp_all add: fs2)
  with run2 yt t a sp isf fs2 ev show ?thesis by blast
qed

theorem repeated_audio_request_overwrites_witness:
  "downloadYouTubeVideo demo_provider ''https://youtu.be/song'' ''mp3'' demo_world =
     Returns RetHolder song_audio_world
   \<and> (\<exists>w2. downloadYouTubeVideo demo_provider ''https://youtu.be/song'' ''mp3'' song_audio_world
              = Returns RetHolder w2
           \<and> fs w2 = fs song_audio_world
           \<and> LogWarning ''Overwriting file with identical name.''
               \<in> set (new_events song_audio_world w2))"
proof -
  from repeated_audio_request_overwrites [OF demo_audio_run] obtain w2 where
    "downloadYouTubeVideo demo_provider ''https://youtu.be/song'' ''mp3'' song_audio_world
       = Returns RetHolder w2"
    "fs w2 = fs song_audio_world"
    "LogWarning ''Overwriting file with identical name.'' \<in> set (new_events song_audio_world w2)"
    by auto
  with demo_audio_run show ?thesis by blast
qed

subsection \<open>Video requests\<close>

text \<open>
  Claim C6. A video request (file type \<^verbatim>\<open>mp4\<close>) whose url resolves, whose
  highest-resolution stream is selected and whose download succeeds, returns the success
  result with the stream's bytes at the path the provider chose and nothing else changed:
  the run performs no remove and no rename, so the file keeps the name and extension the
  provider gave it.
\<close>

theorem video_request_keeps_downloaded_file:
  assumes "YouTube url = Inr yt" and "title yt = Inr t"
    and "get_highest_resolution yt = Inr s" and "download_error s = None"
  shows "\<exists>w'. downloadYouTubeVideo YouTube url ''mp4'' w = Returns RetHolder w'
         \<and> fs w' = (fs w)(download_path w s \<mapsto> payload s)
         \<and> filter is_remove_or_rename (new_events w w') = []
         \<and> new_events w w' =
            [LogInfo ''Attempting to access URL.'',
             LogInfo ''URL access successful. Video has been found.'',
             LogInfo (''The video's title is '' @ t),
             LogInfo ''Accessing highest quality video stream.'',
             LogInfo (''Stream data is '' @ str_of s),
             LogInfo (''Starting download of stream at '' @ url),
             FsWrite (download_path w s) (payload s),
             LogInfo (''Finished download of stream at '' @ url),
             RetSet True,
             ShowInfo GUI_INFO_SUCCESS_TITLE GUI_INFO_SUCCESS_TEXT]"
proof -
  have sel: "fst (select_stream ''mp4'' yt w) = Inr s"
    using assms(3) by (simp add: select_stream_def)
  have "downloadYouTubeVideo YouTube url ''mp4'' w =
     Returns RetHolder
       (w\<lparr>fs := (fs w)(download_path w s \<mapsto> payload s),
          ret := True,
          trace := trace w @
            [LogInfo ''Attempting to access URL.'',
             LogInfo ''URL access successful. Video has been found.'',
             LogInfo (''The video's title is '' @ t),
             LogInfo ''Accessing highest quality video stream.'',
             LogInfo (''Stream data is '' @ str_of s),
             LogInfo (''Starting download of stream at '' @ url),
             FsWrite (download_path w s) (payload s),
             LogInfo (''Finished download of stream at '' @ url),
             RetSet True,
             ShowInfo GUI_INFO_SUCCESS_TITLE GUI_INFO_SUCCESS_TEXT]\<rparr>)"
    by (rule run_video [where YouTube = YouTube and url = url, OF assms(1,2) sel assms(4)])
       simp
  then show ?thesis
    by (simp add: new_events_def)
qed

theorem video_request_keeps_downloaded_file_witness:
  "demo_provider ''https://youtu.be/song'' = Inr song_video
   \<and> title song_video = Inr ''Song''
   \<and> get_highest_resolution song_video = Inr (song_stream\<lparr>str_of := ''<Stream: itag=22>''\<rparr>)
   \<and> download_error (song_stream\<lparr>str_of := ''<Stream: itag=22>''\<rparr>) = None
   \<and> (\<exists>w'. downloadYouTubeVideo demo_provider ''https://youtu.be/song'' ''mp4'' demo_world
              = Returns RetHolder w'
           \<and> fs w' = [''/home/user/Downloads/Song.mp4'' \<mapsto> ''BYTES'']
           \<and> filter is_remove_or_rename (new_events demo_world w') = [])"
proof -
  have t: "title song_video = Inr ''Song''"
    by (simp add: song_video_def)
  have v: "get_highest_resolution song_video = Inr (song_stream\<lparr>str_of := ''<Stream: itag=22>''\<rparr>)"
    by (simp add: song_video_def)
  have d: "download_error (song_stream\<lparr>str_of := ''<Stream: itag=22>''\<rparr>) = None"
    by (simp add: song_stream_def)
  have p: "download_path demo_world (song_stream\<lparr>str_of := ''<Stream: itag=22>''\<rparr>)
             = ''/home/user/Downloads/Song.mp4''"
    using demo_path by simp
  from video_request_keeps_downloaded_file
    [where YouTube = demo_provider and w = demo_world, OF demo_song t v d]
  obtain w' where
    "downloadYouTubeVideo demo_provider ''https://youtu.be/song'' ''mp4'' demo_world
       = Returns RetHolder w'"
    "fs w' = (fs demo_world)(''/home/user/Downloads/Song.mp4'' \<mapsto> ''BYTES'')"
    "filter is_remove_or_rename (new_events demo_world w') = []"
    unfolding p by (auto simp: song_stream_def)
  then show ?thesis
    using demo_song t v d by (auto simp: demo_world_def)
qed

subsection \<open>The destination directory\<close>

text \<open>
  Claim C7. Every successful request, whatever its file type, writes exactly one file: the
  selected stream's bytes, at the join of the directory
  \<^verbatim>\<open>os.path.join(Path.home(), 'Downloads')\<close> and the file name the provider chose. The
  directory depends on the home directory alone, which the run does not change.
\<close>

theorem download_goes_to_downloads_folder:
  assumes "downloadYouTubeVideo YouTube url fileType w = Returns RetHolder w'"
  shows "\<exists>yt s. YouTube url = Inr yt \<and> fst (select_stream fileType yt w) = Inr s
         \<and> filter is_FsWrite (new_events w w') =
             [FsWrite (os_path_join (os_path_join (home w) ''Downloads'') (default_filename s))
                (payload s)]
         \<and> home w' = home w"
proof (cases "fileType = ''mp3''")
  case True
  with assms obtain yt t s base ext where
    yt: "YouTube url = Inr yt" and a: "get_audio_only yt = Inr s" and
    h: "home w' = home w" and
    ev: "new_events w w' =
       [LogInfo ''Attempting to access URL.'',
        LogInfo ''URL access successful. Video has been found.'',
        LogInfo (''The video's title is '' @ t),
        LogInfo ''Accessing highest quality audio stream.'',
        LogInfo (''Stream data is '' @ str_of s),
        LogInfo (''Starting download of stream at '' @ url),
        FsWrite (download_path w s) (payload s),
        LogInfo (''Finished download of stream at '' @ url),
        LogInfo ''Saving file as .mp3 format.''] @
       (if fs w (base @ ''.mp3'') = None then []
        else [LogWarning ''Overwriting file with identical name.'',
              FsRemove (base @ ''.mp3'')]) @
       [FsRename (download_path w s) (base @ ''.mp3''),
        RetSet True,
        ShowInfo GUI_INFO_SUCCESS_TITLE GUI_INFO_SUCCESS_TEXT]"
    by (auto elim: audio_success_inv)
  have sel: "fst (select_stream fileType yt w) = Inr s"
    using a True by (simp add: select_stream_def)
  have "filter is_FsWrite (new_events w w') = [FsWrite (download_path w s) (payload s)]"
    by (simp add: ev)
  with yt sel h show ?thesis by blast
next
  case False
  with assms obtain yt t s where
    yt: "YouTube url = Inr yt" and v: "get_highest_resolution yt = Inr s" and
    h: "home w' = home w" and
    ev: "new_events w w' =
       [LogInfo ''Attempting to access URL.'',
        LogInfo ''URL access successful. Video has been found.'',
        LogInfo (''The video's title is '' @ t),
        LogInfo ''Accessing highest quality video stream.'',
        LogInfo (''Stream data is '' @ str_of s),
        LogInfo (''Starting download of stream at '' @ url),
        FsWrite (download_path w s) (payload s),
        LogInfo (''Finished download of stream at '' @ url),
        RetSet True,
        ShowInfo GUI_INFO_SUCCESS_TITLE GUI_INFO_SUCCESS_TEXT]"
    by (rule video_success_inv)
  have sel: "fst (select_stream fileType yt w) = Inr s"
    using v False by (simp add: select_stream_def)
  have "filter is_FsWrite (new_events w w') = [FsWrite (download_path w s) (payload s)]"
    by (simp add: ev)
  with yt sel h show ?thesis by blast
qed

theorem download_goes_to_downloads_folder_witness:
  "downloadYouTubeVideo demo_provider ''https://youtu.be/song'' ''mp3'' demo_world =
     Returns RetHolder song_audio_world
   \<and> filter is_FsWrite (new_events demo_world song_audio_world) =
       [FsWrite ''/home/user/Downloads/Song.mp4'' ''BYTES'']
   \<and> home song_audio_world = home demo_world"
proof -
  from download_goes_to_downloads_folder [OF demo_audio_run] obtain yt s where
    yt: "demo_provider ''https://youtu.be/song'' = Inr yt" and
    s: "fst (select_stream ''mp3'' yt demo_world) = Inr s" and
    ev: "filter is_FsWrite (new_events demo_world song_audio_world) =
           [FsWrite (download_path demo_world s) (payload s)]" and
    h: "home song_audio_world = home demo_world"
    by blast
  from yt have yt': "yt = song_video" by (simp add: demo_song)
  from s have s': "s = song_stream" by (simp add: yt' song_video_def select_stream_def)
  from ev h demo_audio_run show ?thesis
    by (simp add: s' demo_path demo_payload)
qed

subsection \<open>The file type decides the branch\<close>

text \<open>
  Claim C8. For every file type other than the exact string \<^verbatim>\<open>mp3\<close> the handler behaves
  exactly as for \<^verbatim>\<open>mp4\<close>: it selects the highest-resolution stream and performs no remove
  and no rename. The string \<^verbatim>\<open>mp3\<close> selects the audio-only stream, and a successful
  \<^verbatim>\<open>mp3\<close> request has renamed a file to a \<^verbatim>\<open>.mp3\<close> path.
\<close>

theorem only_mp3_takes_audio_branch:
  assumes "fileType \<noteq> ''mp3''"
  shows "downloadYouTubeVideo YouTube url fileType w = downloadYouTubeVideo YouTube url ''mp4'' w
       \<and> fst (select_stream fileType yt w) = get_highest_resolution yt
       \<and> filter is_remove_or_rename
           (new_events w (world_of (downloadYouTubeVideo YouTube url fileType w))) = []
       \<and> fst (select_stream ''mp3'' yt w) = get_audio_only yt
       \<and> (\<forall>w'. downloadYouTubeVideo YouTube url ''mp3'' w = Returns RetHolder w' \<longrightarrow>
            (\<exists>src base ext. os_path_splitext src = (base, ext)
                \<and> FsRename src (base @ ''.mp3'') \<in> set (new_events w w')))"
proof -
  have same: "downloadYouTubeVideo YouTube url fileType w
                = downloadYouTubeVideo YouTube url ''mp4'' w"
  proof -
    have s: "select_stream fileType y v = select_stream ''mp4'' y v" for y v
      using assms by (simp add: select_stream_def)
    have ne: "(fileType = ''mp3'') = False" "(''mp4'' = ''mp3'') = False"
      using assms by simp_all
    have d: "download_and_convert url fileType s v = download_and_convert url ''mp4'' s v"
      for s v
      unfolding download_and_convert_def ne by (rule refl)
    show ?thesis
      unfolding downloadYouTubeVideo_def s d by (rule refl)
  qed
  have sel: "fst (select_stream fileType yt w) = get_highest_resolution yt"
    using assms by (simp add: select_stream_def)
  have none: "filter is_remove_or_rename
           (new_events w (world_of (downloadYouTubeVideo YouTube url fileType w))) = []"
  proof (cases rule: handler_cases
      [where YouTube = YouTube and url = url and fileType = fileType and w = w])
    case (url_error e)
    then show ?thesis by (simp add: run_url_error new_events_def)
  next
    case (title_error yt e)
    then show ?thesis by (simp add: run_title_error new_events_def)
  next
    case (select_error yt t e)
    then show ?thesis by (simp add: run_select_error new_events_def)
  next
    case (download_error yt t s e)
    then show ?thesis by (simp add: run_download_error new_events_def)
  next
    case (downloaded yt t s)
    from run_video [where YouTube = YouTube and url = url, OF downloaded assms]
    show ?thesis by (simp add: new_events_def)
  qed
  have audio: "fst (select_stream ''mp3'' yt w) = get_audio_only yt"
    by (simp add: select_stream_def)
  have ren: "\<forall>w'. downloadYouTubeVideo YouTube url ''mp3'' w = Returns RetHolder w' \<longrightarrow>
            (\<exists>src base ext. os_path_splitext src = (base, ext)
                \<and> FsRename src (base @ ''.mp3'') \<in> set (new_events w w'))"
  proof (intro allI impI)
    fix w'
    assume "downloadYouTubeVideo YouTube url ''mp3'' w = Returns RetHolder w'"
    then obtain yt t s base ext where
      sp: "os_path_splitext (download_path w s) = (base, ext)" and
      ev: "new_events w w' =
       [LogInfo ''Attempting to access URL.'',
        LogInfo ''URL access successful. Video has been found.'',
        LogInfo (''The video's title is '' @ t),
        LogInfo ''Accessing highest quality audio stream.'',
        LogInfo (''Stream data is '' @ str_of s),
        LogInfo (''Starting download of stream at '' @ url),
        FsWrite (download_path w s) (payload s),
        LogInfo (''Finished download of stream at '' @ url),
        LogInfo ''Saving file as .mp3 format.''] @
       (if fs w (base @ ''.mp3'') = None then []
        else [LogWarning ''Overwriting file with identical name.'',
              FsRemove (base @ ''.mp3'')]) @
       [FsRename (download_path w s) (base @ ''.mp3''),
        RetSet True,
        ShowInfo GUI_INFO_SUCCESS_TITLE GUI_INFO_SUCCESS_TEXT]"
      by (rule audio_success_inv)
    have "FsRename (download_path w s) (base @ ''.mp3'') \<in> set (new_events w w')"
      by (simp add: ev)
    with sp show "\<exists>src base ext. os_path_splitext src = (base, ext)
                \<and> FsRename src (base @ ''.mp3'') \<in> set (new_events w w')"
      by blast
  qed
  from same sel none audio ren show ?thesis by blast
qed

theorem only_mp3_takes_audio_branch_witness:
  "''wav'' \<noteq> ''mp3''
   \<and> downloadYouTubeVideo demo_provider ''https://youtu.be/song'' ''wav'' demo_world
       = downloadYouTubeVideo demo_provider ''https://youtu.be/song'' ''mp4'' demo_world
   \<and> fst (select_stream ''wav'' song_video demo_world) = get_highest_resolution song_video
   \<and> downloadYouTubeVideo demo_provider ''https://youtu.be/song'' ''mp3'' demo_world
       = Returns RetHolder song_audio_world
   \<and> (\<exists>src base ext. os_path_splitext src = (base, ext)
         \<and> FsRename src (base @ ''.mp3'') \<in> set (new_events demo_world song_audio_world))"
proof -
  have ne: "''wav'' \<noteq> ''mp3''" by simp
  from only_mp3_takes_audio_branch
    [where YouTube = demo_provider and url = "''https://youtu.be/song''"
       and w = demo_world and yt = song_video, OF ne]
    demo_audio_run
  show ?thesis by blast
qed

subsection \<open>The result holder\<close>

text \<open>
  Claim C9. On every normal return of the handler, \<^verbatim>\<open>ret\<close> has been set exactly once in the
  run. Either the handler returns \<^verbatim>\<open>None\<close>, \<^verbatim>\<open>ret\<close> was set to False, and the run took one
  of the two error exits (the constructor raised, or the stream selection raised); or
  the handler returns the \<^verbatim>\<open>ret\<close> holder itself, not the boolean True, and \<^verbatim>\<open>ret\<close> was set
  to True.
\<close>

theorem ret_assigned_once_on_return:
  assumes "downloadYouTubeVideo YouTube url fileType w = Returns v w'"
  shows "(v = PyNone \<and> filter is_RetSet (new_events w w') = [RetSet False] \<and> ret w' = False
           \<and> ((\<exists>e. YouTube url = Inl e)
              \<or> (\<exists>yt e. YouTube url = Inr yt \<and> fst (select_stream fileType yt w) = Inl e)))
       \<or> (v = RetHolder \<and> v \<noteq> PyBool True
           \<and> filter is_RetSet (new_events w w') = [RetSet True] \<and> ret w' = True)"
proof (cases rule: handler_cases
    [where YouTube = YouTube and url = url and fileType = fileType and w = w])
  case (url_error e)
  with assms show ?thesis
    by (auto simp: run_url_error new_events_def)
next
  case (title_error yt e)
  with assms show ?thesis by (simp add: run_title_error)
next
  case (select_error yt t e)
  with assms show ?thesis
    by (auto simp: run_select_error new_events_def)
next
  case (download_error yt t s e)
  with assms show ?thesis by (simp add: run_download_error)
next
  case (downloaded yt t s)
  have v: "v = RetHolder"
  proof (cases "fileType = ''mp3''")
    case True
    obtain base ext where sp: "os_path_splitext (download_path w s) = (base, ext)"
      by (cases "os_path_splitext (download_path w s)")
    from downloaded(3) True have a: "get_audio_only yt = Inr s"
      by (simp add: select_stream_def)
    from assms True
      run_audio [where YouTube = YouTube and url = url, OF downloaded(1,2) a downloaded(4) sp]
    show ?thesis by (auto split: if_splits)
  next
    case False
    with assms run_video [where YouTube = YouTube and url = url, OF downloaded False]
    show ?thesis by simp
  qed
  have "filter is_RetSet (new_events w w') = [RetSet True] \<and> ret w' = True"
  proof (cases "fileType = ''mp3''")
    case True
    with assms v obtain t s base ext where
      "ret w' = True"
      "new_events w w' =
       [LogInfo ''Attempting to access URL.'',
        LogInfo ''URL access successful. Video has been found.'',
        LogInfo (''The video's title is '' @ t),
        LogInfo ''Accessing highest quality audio stream.'',
        LogInfo (''Stream data is '' @ str_of s),
        LogInfo (''Starting download of stream at '' @ url),
        FsWrite (download_path w s) (payload s),
        LogInfo (''Finished download of stream at '' @ url),
        LogInfo ''Saving file as .mp3 format.''] @
       (if fs w (base @ ''.mp3'') = None then []
        else [LogWarning ''Overwriting file with identical name.'',
              FsRemove (base @ ''.mp3'')]) @
       [FsRename (download_path w s) (base @ ''.mp3''),
        RetSet True,
        ShowInfo GUI_INFO_SUCCESS_TITLE GUI_INFO_SUCCESS_TEXT]"
      by (auto elim: audio_success_inv)
    then show ?thesis by simp
  next
    case False
    with assms v obtain t s where
      "ret w' = True"
      "new_events w w' =
       [LogInfo ''Attempting to access URL.'',
        LogInfo ''URL access successful. Video has been found.'',
        LogInfo (''The video's title is '' @ t),
        LogInfo ''Accessing highest quality video stream.'',
        LogInfo (''Stream data is '' @ str_of s),
        LogInfo (''Starting download of stream at '' @ url),
        FsWrite (download_path w s) (payload s),
        LogInfo (''Finished download of stream at '' @ url),
        RetSet True,
        ShowInfo GUI_INFO_SUCCESS_TITLE GUI_INFO_SUCCESS_TEXT]"
      by (auto elim: video_success_inv)
    then show ?thesis by simp
  qed
  with v show ?thesis by simp
qed

theorem ret_assigned_once_on_return_witness:
  "downloadYouTubeVideo demo_provider ''https://youtu.be/song'' ''mp3'' demo_world =
     Returns RetHolder song_audio_world
   \<and> filter is_RetSet (new_events demo_world song_audio_world) = [RetSet True]
   \<and> ret song_audio_world = True"
  using ret_assigned_once_on_return [OF demo_audio_run] demo_audio_run by simp

subsection \<open>What the rename changes\<close>

text \<open>
  Claim C10. The new path of the audio rename is the \<^verbatim>\<open>splitext\<close> base of the downloaded
  path plus \<^verbatim>\<open>.mp3\<close>. The base and the extension concatenate to the downloaded path and
  the extension holds no separator, so the directory of the new path is the directory of
  the downloaded one and the file names differ in the extension only. When the
  conversion returns, the new path holds what the downloaded path held and every other
  path is as before.
\<close>

theorem rename_changes_extension_only:
  assumes "os_path_splitext outFile = (base, ext)"
  shows "outFile = base @ ext \<and> CHR ''/'' \<notin> set ext
       \<and> fst (os_path_split (base @ ''.mp3'')) = fst (os_path_split outFile)
       \<and> (\<exists>stem. snd (os_path_split outFile) = stem @ ext
                \<and> snd (os_path_split (base @ ''.mp3'')) = stem @ ''.mp3'')
       \<and> (\<forall>w u w'. convert_to_mp3 outFile w = Returns u w' \<longrightarrow>
             fs w' (base @ ''.mp3'') = fs w outFile
           \<and> (\<forall>p. p \<noteq> outFile \<and> p \<noteq> base @ ''.mp3'' \<longrightarrow> fs w' p = fs w p))"
proof -
  have app: "outFile = base @ ext" by (rule splitext_append [OF assms])
  have nosep: "CHR ''/'' \<notin> set ext" by (rule splitext_ext_no_sep [OF assms])
  have s1: "os_path_split outFile = (fst (os_path_split base), snd (os_path_split base) @ ext)"
    unfolding app by (rule split_append_no_sep [OF nosep])
  have s2: "os_path_split (base @ ''.mp3'')
              = (fst (os_path_split base), snd (os_path_split base) @ ''.mp3'')"
    by (rule split_append_no_sep) simp
  have frame: "\<forall>w u w'. convert_to_mp3 outFile w = Returns u w' \<longrightarrow>
             fs w' (base @ ''.mp3'') = fs w outFile
           \<and> (\<forall>p. p \<noteq> outFile \<and> p \<noteq> base @ ''.mp3'' \<longrightarrow> fs w' p = fs w p)"
    using convert_frame [OF _ assms] by blast
  have "fst (os_path_split (base @ ''.mp3'')) = fst (os_path_split outFile)"
    by (simp add: s1 s2)
  moreover have "\<exists>stem. snd (os_path_split outFile) = stem @ ext
                \<and> snd (os_path_split (base @ ''.mp3'')) = stem @ ''.mp3''"
    by (simp add: s1 s2)
  ultimately show ?thesis
    using app nosep frame by blast
qed

theorem rename_changes_extension_only_witness:
  "os_path_splitext ''/home/user/Downloads/Song.mp4'' = (''/home/user/Downloads/Song'', ''.mp4'')
   \<and> fst (os_path_split ''/home/user/Downloads/Song.mp3'')
       = fst (os_path_split ''/home/user/Downloads/Song.mp4'')
   \<and> (\<exists>stem. snd (os_path_split ''/home/user/Downloads/Song.mp4'') = stem @ ''.mp4''
          \<and> snd (os_path_split ''/home/user/Downloads/Song.mp3'') = stem @ ''.mp3'')"
  using rename_changes_extension_only [OF demo_splitext] demo_splitext by simp

end
